theory Spec2Isabelle
  imports Main "HOL-Library.Word"
begin

unbundle bit_operations_syntax

section \<open>Common types and kernel helpers\<close>

type_synonym u8 = "8 word"
type_synonym u16 = "16 word"
type_synonym u32 = "32 word"
type_synonym u64 = "64 word"

text \<open>
  A BPF map is a partial function from keys to values; \<open>bpf_map_lookup_elem\<close> returns
  the element or \<open>None\<close> (the C \<open>NULL\<close>). The programs test every lookup result, and
  the model keeps each of those tests. The two statistics maps are array maps with one
  entry, whose slot 0 exists for as long as the map does; a theorem that gives the new
  value of a counter is stated for a map that has the slot.
\<close>

definition bpf_map_lookup_elem :: "('k \<rightharpoonup> 'v) \<Rightarrow> 'k \<Rightarrow> 'v option" where
  "bpf_map_lookup_elem m key = m key"

text \<open>\<open>bpf_get_current_pid_tgid() >> 32\<close>, stored in a \<open>__u32\<close>.\<close>

definition current_pid :: "u64 \<Rightarrow> u32" where
  "current_pid pid_tgid = ucast (drop_bit 32 pid_tgid)"

text \<open>Constants of the Linux headers the two programs include.\<close>

definition AF_INET :: u32 where "AF_INET = 2"
definition AF_INET6 :: u32 where "AF_INET6 = 10"
definition BPF_SOCK_OPS_TCP_CONNECT_CB :: u32 where "BPF_SOCK_OPS_TCP_CONNECT_CB = 3"
definition BPF_SOCK_OPS_ACTIVE_ESTABLISHED_CB :: u32 where "BPF_SOCK_OPS_ACTIVE_ESTABLISHED_CB = 4"
definition BPF_SOCK_OPS_PASSIVE_ESTABLISHED_CB :: u32 where "BPF_SOCK_OPS_PASSIVE_ESTABLISHED_CB = 5"

text \<open>The fields of \<open>struct bpf_sock_ops\<close> that the handlers read.\<close>

record bpf_sock_ops =
  op :: u32
  family :: u32
  remote_port :: u32

section \<open>TCP fingerprint program: \<open>tcp_fingerprint.c\<close>\<close>

record tcp_profile =
  window_size :: u16
  ttl :: u8
  mss :: u16
  window_scale :: u8
  sack_permitted :: u8
  timestamps :: u8
  no_delay :: u8
  initial_congestion_window :: u32
  ecn :: u8
  fast_open :: u8

record tcp_stats =
  connections_modified :: u64
  packets_processed :: u64
  errors :: u64

text \<open>
  A call of \<open>bpf_setsockopt\<close>: level, option name, the value behind the pointer and
  the length passed. Levels and option names are kept symbolic.
\<close>

datatype sockopt_level = SOL_TCP | SOL_IP | SOL_IPV6

datatype sockopt_name =
  TCP_WINDOW_CLAMP | IP_TTL | IPV6_UNICAST_HOPS | TCP_MAXSEG | TCP_NODELAY | TCP_ECN

datatype setsockopt = Setsockopt sockopt_level sockopt_name nat nat

text \<open>
  What the kernel supplies to one invocation: the value of
  \<open>bpf_get_current_pid_tgid\<close> and the return value of every \<open>bpf_setsockopt\<close> call
  (0 is success).
\<close>

record kernel =
  pid_tgid :: u64
  setsockopt_ret :: "setsockopt \<Rightarrow> int"

record tcp_maps =
  tcp_profiles :: "u32 \<rightharpoonup> tcp_profile"
  stats :: "u32 \<rightharpoonup> tcp_stats"

text \<open>\<open>update_stats\<close>, lines 62-76.\<close>

definition update_stats :: "u8 \<Rightarrow> (u32 \<rightharpoonup> tcp_stats) \<Rightarrow> (u32 \<rightharpoonup> tcp_stats)" where
  "update_stats error sm =
     (let key = 0 in
      case bpf_map_lookup_elem sm key of
        None \<Rightarrow> sm
      | Some st \<Rightarrow>
          if error \<noteq> 0 then sm(key \<mapsto> st\<lparr>errors := errors st + 1\<rparr>)
          else sm(key \<mapsto> st\<lparr>connections_modified := connections_modified st + 1\<rparr>))"

text \<open>The five calls the connect branch can issue, lines 103, 116, 126, 137 and 146.\<close>

definition clamp_call :: "tcp_profile \<Rightarrow> setsockopt" where
  "clamp_call p = Setsockopt SOL_TCP TCP_WINDOW_CLAMP (unat (window_size p)) 2"

definition ttl_call :: "bpf_sock_ops \<Rightarrow> tcp_profile \<Rightarrow> setsockopt" where
  "ttl_call skops p =
     (let level = (if family skops = AF_INET then SOL_IP else SOL_IPV6);
          optname = (if family skops = AF_INET then IP_TTL else IPV6_UNICAST_HOPS)
      in Setsockopt level optname (unat (ttl p)) 1)"

definition mss_call :: "tcp_profile \<Rightarrow> setsockopt" where
  "mss_call p = Setsockopt SOL_TCP TCP_MAXSEG (unat (mss p)) 2"

definition nodelay_call :: setsockopt where
  "nodelay_call = Setsockopt SOL_TCP TCP_NODELAY 1 4"

definition ecn_call :: "tcp_profile \<Rightarrow> setsockopt" where
  "ecn_call p = Setsockopt SOL_TCP TCP_ECN (unat (ecn p)) 1"

text \<open>
  The body of \<open>case BPF_SOCK_OPS_TCP_CONNECT_CB\<close> after a successful profile lookup,
  lines 101-151. The result is the return value, the \<open>bpf_setsockopt\<close> calls in the
  order issued, and the statistics map afterwards. Each \<open>return 0\<close> of the source is a
  branch that ends the pass.
\<close>

definition connect_pass ::
  "kernel \<Rightarrow> bpf_sock_ops \<Rightarrow> tcp_profile \<Rightarrow> (u32 \<rightharpoonup> tcp_stats)
     \<Rightarrow> int \<times> setsockopt list \<times> (u32 \<rightharpoonup> tcp_stats)" where
  "connect_pass k skops p sm =
     (let cs1 = (if window_size p > 0 then [clamp_call p] else []) in
      if window_size p > 0 \<and> setsockopt_ret k (clamp_call p) \<noteq> 0
      then (0, cs1, update_stats 1 sm)
      else
      let cs2 = cs1 @ (if ttl p > 0 then [ttl_call skops p] else []) in
      if ttl p > 0 \<and> setsockopt_ret k (ttl_call skops p) \<noteq> 0
      then (0, cs2, update_stats 1 sm)
      else
      let cs3 = cs2 @ (if mss p > 0 then [mss_call p] else []) in
      if mss p > 0 \<and> setsockopt_ret k (mss_call p) \<noteq> 0
      then (0, cs3, update_stats 1 sm)
      else
      let cs4 = cs3 @ (if no_delay p \<noteq> 0 then [nodelay_call] else []);
          sm4 = (if no_delay p \<noteq> 0 \<and> setsockopt_ret k nodelay_call \<noteq> 0
                 then update_stats 1 sm else sm);
          cs5 = cs4 @ (if ecn p \<noteq> 0 then [ecn_call p] else [])
      in (0, cs5, update_stats 0 sm4))"

text \<open>\<open>tcp_fingerprint_spoof\<close>, lines 79-178.\<close>

definition tcp_fingerprint_spoof ::
  "kernel \<Rightarrow> bpf_sock_ops \<Rightarrow> tcp_maps \<Rightarrow> int \<times> setsockopt list \<times> (u32 \<rightharpoonup> tcp_stats)" where
  "tcp_fingerprint_spoof k skops m =
     (if family skops \<noteq> AF_INET \<and> family skops \<noteq> AF_INET6 then (0, [], stats m)
      else if op skops = BPF_SOCK_OPS_TCP_CONNECT_CB then
        (let pid = current_pid (pid_tgid k) in
         case bpf_map_lookup_elem (tcp_profiles m) pid of
           None \<Rightarrow> (0, [], stats m)
         | Some profile \<Rightarrow> connect_pass k skops profile (stats m))
      else if op skops = BPF_SOCK_OPS_PASSIVE_ESTABLISHED_CB then
        (let pid = current_pid (pid_tgid k) in
         case bpf_map_lookup_elem (tcp_profiles m) pid of
           None \<Rightarrow> (0, [], stats m)
         | Some profile \<Rightarrow>
             if window_size profile > 0 then (0, [clamp_call profile], stats m)
             else (0, [], stats m))
      else if op skops = BPF_SOCK_OPS_ACTIVE_ESTABLISHED_CB then
        (let key = 0 in
         case bpf_map_lookup_elem (stats m) key of
           None \<Rightarrow> (0, [], stats m)
         | Some st \<Rightarrow>
             (0, [], (stats m)(key \<mapsto> st\<lparr>packets_processed := packets_processed st + 1\<rparr>)))
      else (0, [], stats m))"

text \<open>\<open>tcp_socket_create\<close>, lines 181-192: every path returns 1.\<close>

definition SOCK_STREAM :: u32 where "SOCK_STREAM = 1"

definition tcp_socket_create :: "u32 \<Rightarrow> u32 \<Rightarrow> int" where
  "tcp_socket_create sk_family sk_type =
     (if sk_family \<noteq> AF_INET \<and> sk_family \<noteq> AF_INET6 then 1
      else if sk_type \<noteq> SOCK_STREAM then 1
      else 1)"

section \<open>TLS JA3 program: \<open>tls_ja3.c\<close>\<close>

definition TLS_HANDSHAKE :: u8 where "TLS_HANDSHAKE = 0x16"
definition TLS_CLIENT_HELLO :: u8 where "TLS_CLIENT_HELLO = 0x01"

text \<open>Constants of the Linux headers, and the sizes of the header structures.\<close>

definition ETH_P_IP :: u16 where "ETH_P_IP = 0x0800"
definition IPPROTO_TCP :: u8 where "IPPROTO_TCP = 6"
definition TC_ACT_OK :: int where "TC_ACT_OK = 0"

definition sizeof_ethhdr :: nat where "sizeof_ethhdr = 14"
definition sizeof_iphdr :: nat where "sizeof_iphdr = 20"
definition sizeof_tcphdr :: nat where "sizeof_tcphdr = 20"
definition sizeof_tls_record :: nat where "sizeof_tls_record = 5"
definition sizeof_tls_handshake :: nat where "sizeof_tls_handshake = 4"

record ja3_profile =
  tls_version :: u16
  cipher_count :: u16
  ciphers :: "u16 list"
  extension_count :: u16
  extensions :: "u16 list"
  curve_count :: u16
  curves :: "u16 list"
  format_count :: u8
  formats :: "u8 list"
  enabled :: u8

text \<open>
  \<open>struct ja3_stats\<close>. Its third field is \<open>errors\<close> in the source; the record field is
  named \<open>ja3_errors\<close> to keep it apart from the field of \<open>tcp_stats\<close>.
\<close>

record ja3_stats =
  client_hello_seen :: u64
  client_hello_modified :: u64
  ja3_errors :: u64
  packets_passed :: u64

datatype ja3_counter = Client_hello_seen | Client_hello_modified | Ja3_errors | Packets_passed

text \<open>
  A \<open>__u64 *\<close> as the call sites build it: the address of a field of the element a lookup
  returned. When the lookup returned \<open>NULL\<close> the pointer is \<open>NULL\<close> plus the field's
  offset, which points at no counter.
\<close>

datatype counter_ptr = Null_offset ja3_counter | Slot_counter u32 ja3_counter

text \<open>
  The two ways an invocation can go wrong in memory: a load at an offset that is not below
  \<open>data_end\<close>, and an atomic add through a pointer that points at no counter.
\<close>

datatype fault = Out_of_bounds nat | Bad_pointer counter_ptr

definition bind_res :: "fault + 'a \<Rightarrow> ('a \<Rightarrow> fault + 'b) \<Rightarrow> fault + 'b" where
  "bind_res x f = (case x of Inl e \<Rightarrow> Inl e | Inr v \<Rightarrow> f v)"

text \<open>
  The expression
  \<open>&((struct ja3_stats *)bpf_map_lookup_elem(&ja3_stats_map, &(__u32){0}))->field\<close>
  of lines 158, 195 and 259.
\<close>

definition counter_ref :: "(u32 \<rightharpoonup> ja3_stats) \<Rightarrow> ja3_counter \<Rightarrow> counter_ptr" where
  "counter_ref sm f =
     (case bpf_map_lookup_elem sm 0 of
        None \<Rightarrow> Null_offset f
      | Some _ \<Rightarrow> Slot_counter 0 f)"

definition add_counter :: "ja3_counter \<Rightarrow> ja3_stats \<Rightarrow> ja3_stats" where
  "add_counter f st =
     (case f of
        Client_hello_seen \<Rightarrow> st\<lparr>client_hello_seen := client_hello_seen st + 1\<rparr>
      | Client_hello_modified \<Rightarrow> st\<lparr>client_hello_modified := client_hello_modified st + 1\<rparr>
      | Ja3_errors \<Rightarrow> st\<lparr>ja3_errors := ja3_errors st + 1\<rparr>
      | Packets_passed \<Rightarrow> st\<lparr>packets_passed := packets_passed st + 1\<rparr>)"

text \<open>\<open>__sync_fetch_and_add(counter, 1)\<close> on the statistics map.\<close>

definition sync_fetch_and_add ::
  "counter_ptr \<Rightarrow> (u32 \<rightharpoonup> ja3_stats) \<Rightarrow> fault + (u32 \<rightharpoonup> ja3_stats)" where
  "sync_fetch_and_add counter sm =
     (case counter of
        Null_offset f \<Rightarrow> Inl (Bad_pointer counter)
      | Slot_counter key f \<Rightarrow>
          (case sm key of
             None \<Rightarrow> Inl (Bad_pointer counter)
           | Some st \<Rightarrow> Inr (sm(key \<mapsto> add_counter f st))))"

text \<open>\<open>update_ja3_stats\<close>, lines 90-99.\<close>

definition update_ja3_stats ::
  "counter_ptr \<Rightarrow> (u32 \<rightharpoonup> ja3_stats) \<Rightarrow> fault + (u32 \<rightharpoonup> ja3_stats)" where
  "update_ja3_stats counter sm =
     (let key = 0 in
      case bpf_map_lookup_elem sm key of
        None \<Rightarrow> Inr sm
      | Some st \<Rightarrow> sync_fetch_and_add counter sm)"

subsection \<open>Packet access\<close>

text \<open>
  The packet is the byte list \<open>buf\<close>: \<open>data\<close> is offset 0 and \<open>data_end\<close> is offset
  \<open>length buf\<close>. Every dereference of the parser is a load that records the offset it
  touches, and that is a fault when the offset is not below \<open>data_end\<close>. The target is
  little-endian: a 16-bit field is read low byte first, and \<open>bpf_htons\<close> swaps the two
  bytes of its argument.
\<close>

definition load8 :: "u8 list \<Rightarrow> nat \<Rightarrow> nat list \<Rightarrow> fault + (u8 \<times> nat list)" where
  "load8 buf off rd =
     (if off < length buf then Inr (buf ! off, rd @ [off]) else Inl (Out_of_bounds off))"

definition load16 :: "u8 list \<Rightarrow> nat \<Rightarrow> nat list \<Rightarrow> fault + (u16 \<times> nat list)" where
  "load16 buf off rd =
     bind_res (load8 buf off rd) (\<lambda>(lo, rd1).
     bind_res (load8 buf (off + 1) rd1) (\<lambda>(hi, rd2).
     Inr (ucast lo OR push_bit 8 (ucast hi), rd2)))"

definition bpf_htons :: "u16 \<Rightarrow> u16" where
  "bpf_htons x = push_bit 8 x OR drop_bit 8 x"

text \<open>
  \<open>parse_tls_client_hello\<close>, lines 102-175. The result is the return value, the offsets
  loaded, in order, and the statistics map afterwards. \<open>h_proto\<close> is at offset 12 of the
  Ethernet header, \<open>protocol\<close> at offset 9 of the IPv4 header and \<open>ihl\<close> the low four
  bits of its first byte, \<open>dest\<close> at offset 2 of the TCP header and \<open>doff\<close> the high
  four bits of its byte 12.
\<close>

definition parse_tls_client_hello ::
  "u8 list \<Rightarrow> ja3_profile \<Rightarrow> (u32 \<rightharpoonup> ja3_stats)
     \<Rightarrow> fault + (int \<times> nat list \<times> (u32 \<rightharpoonup> ja3_stats))" where
  "parse_tls_client_hello buf profile sm =
     (let data_end = length buf; eth = 0 in
      if eth + sizeof_ethhdr > data_end then Inr (0, [], sm) else
      bind_res (load16 buf (eth + 12) []) (\<lambda>(h_proto, rd1).
      if h_proto \<noteq> bpf_htons ETH_P_IP then Inr (0, rd1, sm) else
      let ip = eth + sizeof_ethhdr in
      if ip + sizeof_iphdr > data_end then Inr (0, rd1, sm) else
      bind_res (load8 buf (ip + 9) rd1) (\<lambda>(protocol, rd2).
      if protocol \<noteq> IPPROTO_TCP then Inr (0, rd2, sm) else
      bind_res (load8 buf ip rd2) (\<lambda>(ver_ihl, rd3).
      let ihl = ver_ihl AND 0x0F;
          tcp = ip + unat ihl * 4 in
      if tcp + sizeof_tcphdr > data_end then Inr (0, rd3, sm) else
      bind_res (load16 buf (tcp + 2) rd3) (\<lambda>(dest, rd4).
      if dest \<noteq> bpf_htons 443 then Inr (0, rd4, sm) else
      bind_res (load8 buf (tcp + 12) rd4) (\<lambda>(doff_res, rd5).
      let doff = drop_bit 4 doff_res;
          payload = tcp + unat doff * 4 in
      if payload + sizeof_tls_record > data_end then Inr (0, rd5, sm) else
      let tls = payload in
      bind_res (load8 buf tls rd5) (\<lambda>(content_type, rd6).
      if content_type \<noteq> TLS_HANDSHAKE then Inr (0, rd6, sm) else
      let handshake = tls + sizeof_tls_record in
      if handshake + sizeof_tls_handshake > data_end then Inr (0, rd6, sm) else
      bind_res (load8 buf handshake rd6) (\<lambda>(msg_type, rd7).
      if msg_type \<noteq> TLS_CLIENT_HELLO then Inr (0, rd7, sm) else
      bind_res (update_ja3_stats (counter_ref sm Client_hello_seen) sm) (\<lambda>sm'.
      Inr (1, rd7, sm'))))))))))"

record ja3_maps =
  ja3_profiles :: "u32 \<rightharpoonup> ja3_profile"
  ja3_stats_map :: "u32 \<rightharpoonup> ja3_stats"

text \<open>\<open>ja3_socket_filter\<close>, lines 178-200.\<close>

definition ja3_socket_filter ::
  "u64 \<Rightarrow> u8 list \<Rightarrow> ja3_maps \<Rightarrow> fault + (int \<times> nat list \<times> (u32 \<rightharpoonup> ja3_stats))" where
  "ja3_socket_filter pid_tgid_now buf m =
     (let pid = current_pid pid_tgid_now in
      case bpf_map_lookup_elem (ja3_profiles m) pid of
        None \<Rightarrow> Inr (0, [], ja3_stats_map m)
      | Some profile \<Rightarrow>
          if enabled profile = 0 then Inr (0, [], ja3_stats_map m)
          else
            bind_res (parse_tls_client_hello buf profile (ja3_stats_map m)) (\<lambda>(r, rd, sm).
            if r \<noteq> 0 then
              bind_res (update_ja3_stats (counter_ref sm Client_hello_modified) sm) (\<lambda>sm'.
              Inr (0, rd, sm'))
            else Inr (0, rd, sm)))"

text \<open>\<open>ja3_tc_egress\<close>, lines 203-233.\<close>

definition ja3_tc_egress ::
  "u64 \<Rightarrow> u8 list \<Rightarrow> ja3_maps \<Rightarrow> fault + (int \<times> nat list \<times> (u32 \<rightharpoonup> ja3_stats))" where
  "ja3_tc_egress pid_tgid_now buf m =
     (let pid = current_pid pid_tgid_now in
      case bpf_map_lookup_elem (ja3_profiles m) pid of
        None \<Rightarrow> Inr (TC_ACT_OK, [], ja3_stats_map m)
      | Some profile \<Rightarrow>
          if enabled profile = 0 then Inr (TC_ACT_OK, [], ja3_stats_map m)
          else
            bind_res (parse_tls_client_hello buf profile (ja3_stats_map m)) (\<lambda>(r, rd, sm).
            Inr (TC_ACT_OK, rd, sm)))"

text \<open>\<open>ja3_sockops\<close>, lines 236-268.\<close>

definition ja3_sockops ::
  "u64 \<Rightarrow> bpf_sock_ops \<Rightarrow> ja3_maps \<Rightarrow> fault + (int \<times> (u32 \<rightharpoonup> ja3_stats))" where
  "ja3_sockops pid_tgid_now skops m =
     (if family skops \<noteq> AF_INET \<and> family skops \<noteq> AF_INET6 then Inr (0, ja3_stats_map m)
      else if remote_port skops \<noteq> ucast (bpf_htons 443) then Inr (0, ja3_stats_map m)
      else if op skops = BPF_SOCK_OPS_TCP_CONNECT_CB then
        (let pid = current_pid pid_tgid_now in
         case bpf_map_lookup_elem (ja3_profiles m) pid of
           None \<Rightarrow> Inr (0, ja3_stats_map m)
         | Some profile \<Rightarrow>
             if enabled profile \<noteq> 0 then
               bind_res
                 (update_ja3_stats (counter_ref (ja3_stats_map m) Packets_passed)
                    (ja3_stats_map m))
                 (\<lambda>sm'. Inr (0, sm'))
             else Inr (0, ja3_stats_map m))
      else Inr (0, ja3_stats_map m))"

section \<open>Reading results, and concrete scenarios\<close>

definition issued ::
  "int \<times> setsockopt list \<times> (u32 \<rightharpoonup> tcp_stats) \<Rightarrow> setsockopt list" where
  "issued r = fst (snd r)"

definition stats_after ::
  "int \<times> setsockopt list \<times> (u32 \<rightharpoonup> tcp_stats) \<Rightarrow> (u32 \<rightharpoonup> tcp_stats)" where
  "stats_after r = snd (snd r)"

text \<open>A mutation call fails when \<open>bpf_setsockopt\<close> returns a value other than 0.\<close>

definition fails :: "kernel \<Rightarrow> setsockopt \<Rightarrow> bool" where
  "fails k c \<longleftrightarrow> setsockopt_ret k c \<noteq> 0"

definition issue_if :: "bool \<Rightarrow> setsockopt \<Rightarrow> setsockopt list" where
  "issue_if b c = (if b then [c] else [])"

text \<open>Every field of the profile at its zero-sentinel.\<close>

definition zero_sentinel :: "tcp_profile \<Rightarrow> bool" where
  "zero_sentinel p \<longleftrightarrow>
     window_size p = 0 \<and> ttl p = 0 \<and> mss p = 0 \<and> window_scale p = 0 \<and>
     sack_permitted p = 0 \<and> timestamps p = 0 \<and> no_delay p = 0 \<and>
     initial_congestion_window p = 0 \<and> ecn p = 0 \<and> fast_open p = 0"

definition zero_profile :: tcp_profile where
  "zero_profile =
     \<lparr>window_size = 0, ttl = 0, mss = 0, window_scale = 0, sack_permitted = 0,
      timestamps = 0, no_delay = 0, initial_congestion_window = 0, ecn = 0, fast_open = 0\<rparr>"

text \<open>The profile \<open>{mss=1460, ttl=64, window_size=0}\<close>, all other fields 0.\<close>

definition profile_mss_ttl :: tcp_profile where
  "profile_mss_ttl = zero_profile\<lparr>ttl := 64, mss := 1460\<rparr>"

text \<open>
  Scenarios for the closed theorems: process 1234, an IPv4 socket, a profile map with one
  entry for that process, and a statistics map whose slot 0 holds the given counters.
\<close>

definition kernel_of :: "(setsockopt \<Rightarrow> int) \<Rightarrow> kernel" where
  "kernel_of r = \<lparr>pid_tgid = 0x4D200000000, setsockopt_ret = r\<rparr>"

definition sock_ops_v4 :: "u32 \<Rightarrow> bpf_sock_ops" where
  "sock_ops_v4 ev = \<lparr>op = ev, family = AF_INET, remote_port = ucast (bpf_htons 443)\<rparr>"

definition tcp_stats_of :: "u64 \<Rightarrow> u64 \<Rightarrow> u64 \<Rightarrow> tcp_stats" where
  "tcp_stats_of c p e = \<lparr>connections_modified = c, packets_processed = p, errors = e\<rparr>"

definition tcp_maps_of :: "tcp_profile \<Rightarrow> tcp_stats \<Rightarrow> tcp_maps" where
  "tcp_maps_of p st = \<lparr>tcp_profiles = [1234 \<mapsto> p], stats = [0 \<mapsto> st]\<rparr>"

section \<open>Stating the properties of the TLS program\<close>

text \<open>
  What one \<open>update_ja3_stats\<close> at a call site does to the statistics map, once the two
  lookups are put together: the counter of slot 0 grows by one when the slot exists.
\<close>

definition bump :: "ja3_counter \<Rightarrow> (u32 \<rightharpoonup> ja3_stats) \<Rightarrow> (u32 \<rightharpoonup> ja3_stats)" where
  "bump f sm = (case sm 0 of None \<Rightarrow> sm | Some st \<Rightarrow> sm(0 \<mapsto> add_counter f st))"

text \<open>
  The header fields the parser derives its offsets from: the IPv4 header length in 4-byte
  units, the offset of the TCP header, the TCP data offset in 4-byte units, and the offset
  of the TCP payload.
\<close>

definition ihl_of :: "u8 list \<Rightarrow> nat" where
  "ihl_of buf = unat (buf ! 14 AND 0x0F)"

definition tcp_off :: "u8 list \<Rightarrow> nat" where
  "tcp_off buf = 14 + ihl_of buf * 4"

definition doff_of :: "u8 list \<Rightarrow> nat" where
  "doff_of buf = unat (drop_bit 4 (buf ! (tcp_off buf + 12)))"

definition payload_off :: "u8 list \<Rightarrow> nat" where
  "payload_off buf = tcp_off buf + doff_of buf * 4"

text \<open>
  The states of the specification's state machine, as predicates on the buffer: each one
  says that the structure fits before the end of the buffer and carries the expected
  value, on top of the state before.
\<close>

definition eth_ok :: "u8 list \<Rightarrow> bool" where
  "eth_ok buf \<longleftrightarrow> 14 \<le> length buf \<and> buf ! 12 = 0x08 \<and> buf ! 13 = 0x00"

definition ip_ok :: "u8 list \<Rightarrow> bool" where
  "ip_ok buf \<longleftrightarrow> eth_ok buf \<and> 34 \<le> length buf \<and> buf ! 23 = 6"

definition tcp_ok :: "u8 list \<Rightarrow> bool" where
  "tcp_ok buf \<longleftrightarrow> ip_ok buf \<and> tcp_off buf + 20 \<le> length buf \<and>
     buf ! (tcp_off buf + 2) = 0x01 \<and> buf ! (tcp_off buf + 3) = 0xBB"

definition record_ok :: "u8 list \<Rightarrow> bool" where
  "record_ok buf \<longleftrightarrow> tcp_ok buf \<and> payload_off buf + 5 \<le> length buf \<and>
     buf ! payload_off buf = 0x16"

definition handshake_ok :: "u8 list \<Rightarrow> bool" where
  "handshake_ok buf \<longleftrightarrow> record_ok buf \<and> payload_off buf + 9 \<le> length buf \<and>
     buf ! (payload_off buf + 5) = 0x01"

text \<open>The first \<open>n\<close> of the nine byte offsets the parser loads, in the order of the source.\<close>

definition reads_upto :: "u8 list \<Rightarrow> nat \<Rightarrow> nat list" where
  "reads_upto buf n =
     take n [12, 13, 23, 14, tcp_off buf + 2, tcp_off buf + 3, tcp_off buf + 12,
             payload_off buf, payload_off buf + 5]"

text \<open>Scenarios for the closed theorems of the TLS program.\<close>

definition ja3_profile_of :: "u8 \<Rightarrow> ja3_profile" where
  "ja3_profile_of e =
     \<lparr>tls_version = 0x0303, cipher_count = 1, ciphers = [0x1301], extension_count = 0,
      extensions = [], curve_count = 0, curves = [], format_count = 0, formats = [],
      enabled = e\<rparr>"

definition ja3_stats_of :: "u64 \<Rightarrow> u64 \<Rightarrow> u64 \<Rightarrow> u64 \<Rightarrow> ja3_stats" where
  "ja3_stats_of s md e p =
     \<lparr>client_hello_seen = s, client_hello_modified = md, ja3_errors = e, packets_passed = p\<rparr>"

definition ja3_maps_of :: "ja3_profile \<Rightarrow> ja3_stats \<Rightarrow> ja3_maps" where
  "ja3_maps_of p st = \<lparr>ja3_profiles = [1234 \<mapsto> p], ja3_stats_map = [0 \<mapsto> st]\<rparr>"

text \<open>
  A 63-byte frame: Ethernet II with ethertype IPv4, an IPv4 header of 20 bytes with
  protocol TCP, a TCP header of 20 bytes to port 443, a TLS record header of type
  handshake and a handshake header of type ClientHello.
\<close>

definition client_hello_frame :: "u8 list" where
  "client_hello_frame =
     [0, 0, 0, 0, 0, 0, 0, 0, 0, 0, 0, 0, 0x08, 0x00,
      0x45, 0, 0, 49, 0, 0, 0x40, 0, 64, 6, 0, 0, 10, 0, 0, 1, 10, 0, 0, 2,
      0xC0, 0x00, 0x01, 0xBB, 0, 0, 0, 1, 0, 0, 0, 0, 0x50, 0x18, 0xFF, 0xFF, 0, 0, 0, 0,
      0x16, 0x03, 0x01, 0x00, 0x04, 0x01, 0x00, 0x00, 0x00]"

text \<open>
  The frames of claim C4, in the specification's words: a well-formed Ethernet/IPv4/TCP
  frame (ethertype IPv4, version 4, header length at least 5 words, protocol TCP, a whole
  TCP header with data offset at least 5 words) to destination port 443, whose payload
  starts with a TLS record header of content type 0x16 followed by a handshake header of
  message type 0x01.
\<close>

definition well_formed_client_hello_frame :: "u8 list \<Rightarrow> bool" where
  "well_formed_client_hello_frame buf \<longleftrightarrow>
     34 \<le> length buf \<and> buf ! 12 = 0x08 \<and> buf ! 13 = 0x00 \<and>
     drop_bit 4 (buf ! 14) = 4 \<and> 5 \<le> ihl_of buf \<and> buf ! 23 = 6 \<and>
     tcp_off buf + 20 \<le> length buf \<and>
     buf ! (tcp_off buf + 2) = 0x01 \<and> buf ! (tcp_off buf + 3) = 0xBB \<and>
     5 \<le> doff_of buf \<and> payload_off buf + 9 \<le> length buf \<and>
     buf ! payload_off buf = 0x16 \<and> buf ! (payload_off buf + 5) = 0x01"

text \<open>
  The process has no JA3 profile, or has one that is not enabled: the condition
  \<open>!profile || !profile->enabled\<close> of the two packet programs.
\<close>

definition no_active_ja3_profile :: "ja3_maps \<Rightarrow> u32 \<Rightarrow> bool" where
  "no_active_ja3_profile m pid \<longleftrightarrow>
     (case ja3_profiles m pid of None \<Rightarrow> True | Some p \<Rightarrow> enabled p = 0)"

section \<open>Stating how the counters move\<close>

text \<open>
  One operation on one \<open>__u64\<close> counter: it is left alone or one is added to it, modulo
  \<open>2^64\<close>; so it does not go down unless it was at its largest value. A statistics map
  moves by such steps when it keeps its keys and every counter of every slot does.
\<close>

definition counter_step :: "u64 \<Rightarrow> u64 \<Rightarrow> bool" where
  "counter_step a b \<longleftrightarrow> (b = a \<or> b = a + 1) \<and> (a \<noteq> 0xFFFFFFFFFFFFFFFF \<longrightarrow> a \<le> b)"

definition tcp_stats_step :: "tcp_stats \<Rightarrow> tcp_stats \<Rightarrow> bool" where
  "tcp_stats_step a b \<longleftrightarrow>
     counter_step (connections_modified a) (connections_modified b) \<and>
     counter_step (packets_processed a) (packets_processed b) \<and>
     counter_step (errors a) (errors b)"

definition ja3_stats_step :: "ja3_stats \<Rightarrow> ja3_stats \<Rightarrow> bool" where
  "ja3_stats_step a b \<longleftrightarrow>
     counter_step (client_hello_seen a) (client_hello_seen b) \<and>
     counter_step (client_hello_modified a) (client_hello_modified b) \<and>
     counter_step (ja3_errors a) (ja3_errors b) \<and>
     counter_step (packets_passed a) (packets_passed b)"

definition tcp_map_step :: "(u32 \<rightharpoonup> tcp_stats) \<Rightarrow> (u32 \<rightharpoonup> tcp_stats) \<Rightarrow> bool" where
  "tcp_map_step sm sm' \<longleftrightarrow> (\<forall>key. rel_option tcp_stats_step (sm key) (sm' key))"

definition ja3_map_step :: "(u32 \<rightharpoonup> ja3_stats) \<Rightarrow> (u32 \<rightharpoonup> ja3_stats) \<Rightarrow> bool" where
  "ja3_map_step sm sm' \<longleftrightarrow> (\<forall>key. rel_option ja3_stats_step (sm key) (sm' key))"

section \<open>Properties of the TCP program\<close>

lemma current_pid_1234: "current_pid 0x4D200000000 = 1234"
  by (simp add: current_pid_def)

lemma update_stats_None: "sm 0 = None \<Longrightarrow> update_stats e sm = sm"
  by (simp add: update_stats_def bpf_map_lookup_elem_def)

lemma update_stats_error:
  "sm 0 = Some st \<Longrightarrow> e \<noteq> 0 \<Longrightarrow>
   update_stats e sm = sm(0 \<mapsto> st\<lparr>errors := errors st + 1\<rparr>)"
  by (simp add: update_stats_def bpf_map_lookup_elem_def)

lemma update_stats_success:
  "sm 0 = Some st \<Longrightarrow>
   update_stats 0 sm = sm(0 \<mapsto> st\<lparr>connections_modified := connections_modified st + 1\<rparr>)"
  by (simp add: update_stats_def bpf_map_lookup_elem_def)

lemma update_stats_0_errors:
  "map_option errors (update_stats 0 sm key) = map_option errors (sm key)"
  by (cases "sm 0") (simp_all add: update_stats_None update_stats_success)

lemma connect_branch:
  assumes "op skops = BPF_SOCK_OPS_TCP_CONNECT_CB"
    and "family skops = AF_INET \<or> family skops = AF_INET6"
    and "tcp_profiles m (current_pid (pid_tgid k)) = Some p"
  shows "tcp_fingerprint_spoof k skops m = connect_pass k skops p (stats m)"
  using assms by (auto simp add: tcp_fingerprint_spoof_def bpf_map_lookup_elem_def)

lemma connect_pass_zero:
  "zero_sentinel p \<Longrightarrow> connect_pass k skops p sm = (0, [], update_stats 0 sm)"
  by (simp add: connect_pass_def zero_sentinel_def)

lemma connect_pass_clamp_fails:
  assumes "sm 0 = Some st" "window_size p \<noteq> 0" "fails k (clamp_call p)"
  shows "connect_pass k skops p sm =
    (0, [clamp_call p], sm(0 \<mapsto> st\<lparr>errors := errors st + 1\<rparr>))"
  using assms by (simp add: connect_pass_def fails_def word_gt_0 update_stats_error)

lemma connect_pass_ttl_fails:
  assumes "sm 0 = Some st" "\<not> (window_size p \<noteq> 0 \<and> fails k (clamp_call p))"
    "ttl p \<noteq> 0" "fails k (ttl_call skops p)"
  shows "connect_pass k skops p sm =
    (0, issue_if (window_size p \<noteq> 0) (clamp_call p) @ [ttl_call skops p],
     sm(0 \<mapsto> st\<lparr>errors := errors st + 1\<rparr>))"
  using assms
  by (auto simp add: connect_pass_def fails_def word_gt_0 update_stats_error issue_if_def)

lemma connect_pass_mss_fails:
  assumes "sm 0 = Some st" "\<not> (window_size p \<noteq> 0 \<and> fails k (clamp_call p))"
    "\<not> (ttl p \<noteq> 0 \<and> fails k (ttl_call skops p))"
    "mss p \<noteq> 0" "fails k (mss_call p)"
  shows "connect_pass k skops p sm =
    (0, issue_if (window_size p \<noteq> 0) (clamp_call p)
          @ issue_if (ttl p \<noteq> 0) (ttl_call skops p) @ [mss_call p],
     sm(0 \<mapsto> st\<lparr>errors := errors st + 1\<rparr>))"
  using assms
  by (auto simp add: connect_pass_def fails_def word_gt_0 update_stats_error issue_if_def)

lemma connect_pass_completes:
  assumes "\<not> (window_size p \<noteq> 0 \<and> fails k (clamp_call p))"
    "\<not> (ttl p \<noteq> 0 \<and> fails k (ttl_call skops p))"
    "\<not> (mss p \<noteq> 0 \<and> fails k (mss_call p))"
  shows "connect_pass k skops p sm =
    (0, issue_if (window_size p \<noteq> 0) (clamp_call p)
          @ issue_if (ttl p \<noteq> 0) (ttl_call skops p)
          @ issue_if (mss p \<noteq> 0) (mss_call p)
          @ issue_if (no_delay p \<noteq> 0) nodelay_call
          @ issue_if (ecn p \<noteq> 0) (ecn_call p),
     update_stats 0
       (if no_delay p \<noteq> 0 \<and> fails k nodelay_call then update_stats 1 sm else sm))"
  using assms by (auto simp add: connect_pass_def fails_def word_gt_0 issue_if_def Let_def)

lemma update_stats_0_after_1:
  "sm 0 = Some st \<Longrightarrow> update_stats 0 (update_stats 1 sm) =
     sm(0 \<mapsto> st\<lparr>errors := errors st + 1,
                  connections_modified := connections_modified st + 1\<rparr>)"
  by (simp add: update_stats_def bpf_map_lookup_elem_def)

text \<open>
  C8. On an outbound connect whose profile has every field at its zero-sentinel, the
  handler issues no mutation call and the error counter of every statistics slot is what
  it was.
\<close>

theorem zero_sentinel_profile_no_mutation_no_error:
  assumes "op skops = BPF_SOCK_OPS_TCP_CONNECT_CB"
    and "tcp_profiles m (current_pid (pid_tgid k)) = Some p"
    and "zero_sentinel p"
  shows "issued (tcp_fingerprint_spoof k skops m) = [] \<and>
         (\<forall>key. map_option errors (stats_after (tcp_fingerprint_spoof k skops m) key)
                 = map_option errors (stats m key))"
  using assms
  by (simp add: tcp_fingerprint_spoof_def bpf_map_lookup_elem_def connect_pass_zero
      issued_def stats_after_def update_stats_0_errors)

theorem zero_sentinel_profile_witness:
  "op (sock_ops_v4 BPF_SOCK_OPS_TCP_CONNECT_CB) = BPF_SOCK_OPS_TCP_CONNECT_CB \<and>
   tcp_profiles (tcp_maps_of zero_profile (tcp_stats_of 7 8 9))
     (current_pid (pid_tgid (kernel_of (\<lambda>c. - 1)))) = Some zero_profile \<and>
   zero_sentinel zero_profile \<and>
   issued (tcp_fingerprint_spoof (kernel_of (\<lambda>c. - 1))
     (sock_ops_v4 BPF_SOCK_OPS_TCP_CONNECT_CB)
     (tcp_maps_of zero_profile (tcp_stats_of 7 8 9))) = [] \<and>
   map_option errors (stats_after (tcp_fingerprint_spoof (kernel_of (\<lambda>c. - 1))
     (sock_ops_v4 BPF_SOCK_OPS_TCP_CONNECT_CB)
     (tcp_maps_of zero_profile (tcp_stats_of 7 8 9))) 0) = Some 9"
proof -
  have a: "op (sock_ops_v4 BPF_SOCK_OPS_TCP_CONNECT_CB) = BPF_SOCK_OPS_TCP_CONNECT_CB"
    by (simp add: sock_ops_v4_def)
  have b: "tcp_profiles (tcp_maps_of zero_profile (tcp_stats_of 7 8 9))
     (current_pid (pid_tgid (kernel_of (\<lambda>c. - 1)))) = Some zero_profile"
    by (simp add: tcp_maps_of_def kernel_of_def current_pid_1234)
  have c: "zero_sentinel zero_profile"
    by (simp add: zero_sentinel_def zero_profile_def)
  from zero_sentinel_profile_no_mutation_no_error [OF a b c] a b c show ?thesis
    by (simp add: tcp_maps_of_def tcp_stats_of_def)
qed

text \<open>
  C6. On a passive accept the handler issues the window-clamp call, and only that call,
  exactly when the socket is IPv4 or IPv6, the process has a profile and its
  \<open>window_size\<close> is not 0; it issues nothing otherwise. The return value of the call is
  not read, and the statistics map is returned as it was.
\<close>

theorem passive_accept_window_clamp_only:
  assumes "op skops = BPF_SOCK_OPS_PASSIVE_ESTABLISHED_CB"
  shows "tcp_fingerprint_spoof k skops m =
          (0,
           (case tcp_profiles m (current_pid (pid_tgid k)) of
              None \<Rightarrow> []
            | Some p \<Rightarrow>
                if (family skops = AF_INET \<or> family skops = AF_INET6) \<and> window_size p \<noteq> 0
                then [Setsockopt SOL_TCP TCP_WINDOW_CLAMP (unat (window_size p)) 2]
                else []),
           stats m)"
  using assms
  by (simp add: tcp_fingerprint_spoof_def bpf_map_lookup_elem_def clamp_call_def
      BPF_SOCK_OPS_PASSIVE_ESTABLISHED_CB_def BPF_SOCK_OPS_TCP_CONNECT_CB_def
      word_gt_0 split: option.splits)

theorem passive_accept_witness:
  "op (sock_ops_v4 BPF_SOCK_OPS_PASSIVE_ESTABLISHED_CB) = BPF_SOCK_OPS_PASSIVE_ESTABLISHED_CB \<and>
   tcp_fingerprint_spoof (kernel_of (\<lambda>c. - 1))
     (sock_ops_v4 BPF_SOCK_OPS_PASSIVE_ESTABLISHED_CB)
     (tcp_maps_of (zero_profile\<lparr>window_size := 1000, ttl := 64\<rparr>) (tcp_stats_of 7 8 9))
   = (0, [Setsockopt SOL_TCP TCP_WINDOW_CLAMP 1000 2], [0 \<mapsto> tcp_stats_of 7 8 9])"
proof -
  have a: "op (sock_ops_v4 BPF_SOCK_OPS_PASSIVE_ESTABLISHED_CB)
             = BPF_SOCK_OPS_PASSIVE_ESTABLISHED_CB"
    by (simp add: sock_ops_v4_def)
  from passive_accept_window_clamp_only [OF a] a show ?thesis
    by (simp add: tcp_maps_of_def kernel_of_def current_pid_1234 sock_ops_v4_def
        zero_profile_def)
qed

text \<open>
  C1, as the code has it. On an outbound connect of an IPv4 or IPv6 socket with a profile,
  the handler walks window clamp, TTL, MSS, no-delay and ECN in this order and issues one
  call for each of these five fields that is not 0. A failure of the window-clamp, TTL or
  MSS call increments the error counter and ends the pass at once: no later call is
  issued. When none of these three fails, every non-zero field of the five gets its call;
  a failure of the no-delay call increments the error counter by one and the pass goes on
  to ECN, whatever the ECN call then returns, and with no failing no-delay call the pass
  leaves the error counter as it was. The other five fields of the profile are never
  applied.
\<close>

theorem connect_pass_fail_fast_then_best_effort:
  assumes "op skops = BPF_SOCK_OPS_TCP_CONNECT_CB"
    and "family skops = AF_INET \<or> family skops = AF_INET6"
    and "tcp_profiles m (current_pid (pid_tgid k)) = Some p"
    and "stats m 0 = Some st"
  shows
    "(window_size p \<noteq> 0 \<and> fails k (clamp_call p) \<longrightarrow>
        tcp_fingerprint_spoof k skops m =
          (0, [clamp_call p], (stats m)(0 \<mapsto> st\<lparr>errors := errors st + 1\<rparr>)))
     \<and> (\<not> (window_size p \<noteq> 0 \<and> fails k (clamp_call p))
          \<and> ttl p \<noteq> 0 \<and> fails k (ttl_call skops p) \<longrightarrow>
        tcp_fingerprint_spoof k skops m =
          (0, issue_if (window_size p \<noteq> 0) (clamp_call p) @ [ttl_call skops p],
           (stats m)(0 \<mapsto> st\<lparr>errors := errors st + 1\<rparr>)))
     \<and> (\<not> (window_size p \<noteq> 0 \<and> fails k (clamp_call p))
          \<and> \<not> (ttl p \<noteq> 0 \<and> fails k (ttl_call skops p))
          \<and> mss p \<noteq> 0 \<and> fails k (mss_call p) \<longrightarrow>
        tcp_fingerprint_spoof k skops m =
          (0, issue_if (window_size p \<noteq> 0) (clamp_call p)
                @ issue_if (ttl p \<noteq> 0) (ttl_call skops p) @ [mss_call p],
           (stats m)(0 \<mapsto> st\<lparr>errors := errors st + 1\<rparr>)))
     \<and> (\<not> (window_size p \<noteq> 0 \<and> fails k (clamp_call p))
          \<and> \<not> (ttl p \<noteq> 0 \<and> fails k (ttl_call skops p))
          \<and> \<not> (mss p \<noteq> 0 \<and> fails k (mss_call p)) \<longrightarrow>
        issued (tcp_fingerprint_spoof k skops m) =
          issue_if (window_size p \<noteq> 0) (clamp_call p)
            @ issue_if (ttl p \<noteq> 0) (ttl_call skops p)
            @ issue_if (mss p \<noteq> 0) (mss_call p)
            @ issue_if (no_delay p \<noteq> 0) nodelay_call
            @ issue_if (ecn p \<noteq> 0) (ecn_call p)
        \<and> map_option errors (stats_after (tcp_fingerprint_spoof k skops m) 0) =
            Some (if no_delay p \<noteq> 0 \<and> fails k nodelay_call
                  then errors st + 1 else errors st))"
proof -
  have eq: "tcp_fingerprint_spoof k skops m = connect_pass k skops p (stats m)"
    using assms(1-3) by (rule connect_branch)
  show ?thesis
    unfolding eq
    apply (intro conjI impI)
    subgoal using assms(4) by (simp add: connect_pass_clamp_fails)
    subgoal using assms(4) by (simp add: connect_pass_ttl_fails)
    subgoal using assms(4) by (simp add: connect_pass_mss_fails)
    subgoal by (simp add: connect_pass_completes issued_def)
    subgoal using assms(4)
      by (simp add: connect_pass_completes stats_after_def update_stats_0_after_1
          update_stats_success)
    done
qed

theorem connect_pass_witness:
  "tcp_fingerprint_spoof (kernel_of (\<lambda>c. - 1)) (sock_ops_v4 BPF_SOCK_OPS_TCP_CONNECT_CB)
     (tcp_maps_of (zero_profile\<lparr>window_size := 1000, ttl := 64\<rparr>) (tcp_stats_of 7 8 9))
   = (0, [Setsockopt SOL_TCP TCP_WINDOW_CLAMP 1000 2], [0 \<mapsto> tcp_stats_of 7 8 10])
   \<and> issued (tcp_fingerprint_spoof (kernel_of (\<lambda>c. - 1))
        (sock_ops_v4 BPF_SOCK_OPS_TCP_CONNECT_CB)
        (tcp_maps_of (zero_profile\<lparr>no_delay := 1, ecn := 1\<rparr>) (tcp_stats_of 7 8 9)))
      = [Setsockopt SOL_TCP TCP_NODELAY 1 4, Setsockopt SOL_TCP TCP_ECN 1 1]
   \<and> map_option errors (stats_after (tcp_fingerprint_spoof (kernel_of (\<lambda>c. - 1))
        (sock_ops_v4 BPF_SOCK_OPS_TCP_CONNECT_CB)
        (tcp_maps_of (zero_profile\<lparr>no_delay := 1, ecn := 1\<rparr>) (tcp_stats_of 7 8 9))) 0)
      = Some 10
   \<and> issued (tcp_fingerprint_spoof (kernel_of (\<lambda>c. if c = nodelay_call then - 1 else 0))
        (sock_ops_v4 BPF_SOCK_OPS_TCP_CONNECT_CB)
        (tcp_maps_of (zero_profile\<lparr>window_size := 1000, no_delay := 1, ecn := 1\<rparr>)
           (tcp_stats_of 7 8 9)))
      = [Setsockopt SOL_TCP TCP_WINDOW_CLAMP 1000 2, Setsockopt SOL_TCP TCP_NODELAY 1 4,
         Setsockopt SOL_TCP TCP_ECN 1 1]
   \<and> map_option errors (stats_after (tcp_fingerprint_spoof
        (kernel_of (\<lambda>c. if c = nodelay_call then - 1 else 0))
        (sock_ops_v4 BPF_SOCK_OPS_TCP_CONNECT_CB)
        (tcp_maps_of (zero_profile\<lparr>window_size := 1000, no_delay := 1, ecn := 1\<rparr>)
           (tcp_stats_of 7 8 9))) 0) = Some 10"
proof -
  have a: "op (sock_ops_v4 BPF_SOCK_OPS_TCP_CONNECT_CB) = BPF_SOCK_OPS_TCP_CONNECT_CB"
    and b: "family (sock_ops_v4 BPF_SOCK_OPS_TCP_CONNECT_CB) = AF_INET
            \<or> family (sock_ops_v4 BPF_SOCK_OPS_TCP_CONNECT_CB) = AF_INET6"
    by (simp_all add: sock_ops_v4_def)
  have c: "tcp_profiles (tcp_maps_of q (tcp_stats_of 7 8 9))
             (current_pid (pid_tgid (kernel_of r))) = Some q" for q r
    by (simp add: tcp_maps_of_def kernel_of_def current_pid_1234)
  have d: "stats (tcp_maps_of q (tcp_stats_of 7 8 9)) 0 = Some (tcp_stats_of 7 8 9)" for q
    by (simp add: tcp_maps_of_def)
  show ?thesis
    using connect_pass_fail_fast_then_best_effort [OF a b c d,
        of "zero_profile\<lparr>window_size := 1000, ttl := 64\<rparr>" "\<lambda>c. - 1"]
      connect_pass_fail_fast_then_best_effort [OF a b c d,
        of "zero_profile\<lparr>no_delay := 1, ecn := 1\<rparr>" "\<lambda>c. - 1"]
      connect_pass_fail_fast_then_best_effort [OF a b c d,
        of "zero_profile\<lparr>window_size := 1000, no_delay := 1, ecn := 1\<rparr>"
           "\<lambda>c. if c = nodelay_call then - 1 else 0"]
    by (simp add: fails_def kernel_of_def clamp_call_def zero_profile_def issue_if_def
        tcp_maps_of_def tcp_stats_of_def nodelay_call_def ecn_call_def)
qed

text \<open>
  The claim as it was written fails: with \<open>window_size = 1000\<close>, \<open>ttl = 64\<close> and a
  failing window-clamp call, the TTL field is configured and its call is never issued.
\<close>

theorem configured_ttl_skipped_after_clamp_failure:
  "ttl (zero_profile\<lparr>window_size := 1000, ttl := 64\<rparr>) = 64 \<and>
   tcp_fingerprint_spoof (kernel_of (\<lambda>c. - 1)) (sock_ops_v4 BPF_SOCK_OPS_TCP_CONNECT_CB)
     (tcp_maps_of (zero_profile\<lparr>window_size := 1000, ttl := 64\<rparr>) (tcp_stats_of 0 0 0))
   = (0, [Setsockopt SOL_TCP TCP_WINDOW_CLAMP 1000 2], [0 \<mapsto> tcp_stats_of 0 0 1])"
  by (simp add: tcp_fingerprint_spoof_def connect_pass_def kernel_of_def sock_ops_v4_def
      tcp_maps_of_def tcp_stats_of_def zero_profile_def current_pid_1234
      bpf_map_lookup_elem_def update_stats_def clamp_call_def AF_INET_def AF_INET6_def)

lemma profile_mss_ttl_fields:
  "window_size profile_mss_ttl = 0" "ttl profile_mss_ttl = 64" "mss profile_mss_ttl = 1460"
  "no_delay profile_mss_ttl = 0" "ecn profile_mss_ttl = 0"
  by (simp_all add: profile_mss_ttl_def zero_profile_def)

text \<open>
  C3, as the code has it. For the profile \<open>{mss=1460, ttl=64, window_size=0}\<close> with
  every other field 0, an outbound connect of an IPv4 or IPv6 socket never issues the
  window-clamp call. It issues the TTL call first; when that fails it increments the error
  counter and stops. Otherwise it issues the MSS call; when that fails it increments the
  error counter and stops. Only when both calls succeed does it increment
  \<open>connections_modified\<close>, exactly once, with the error counter untouched.
\<close>

theorem mss_ttl_profile_connect:
  assumes "op skops = BPF_SOCK_OPS_TCP_CONNECT_CB"
    and "family skops = AF_INET \<or> family skops = AF_INET6"
    and "tcp_profiles m (current_pid (pid_tgid k)) = Some profile_mss_ttl"
    and "stats m 0 = Some st"
  shows "tcp_fingerprint_spoof k skops m =
    (if fails k (ttl_call skops profile_mss_ttl)
     then (0, [ttl_call skops profile_mss_ttl],
           (stats m)(0 \<mapsto> st\<lparr>errors := errors st + 1\<rparr>))
     else if fails k (mss_call profile_mss_ttl)
     then (0, [ttl_call skops profile_mss_ttl, mss_call profile_mss_ttl],
           (stats m)(0 \<mapsto> st\<lparr>errors := errors st + 1\<rparr>))
     else (0, [ttl_call skops profile_mss_ttl, mss_call profile_mss_ttl],
           (stats m)(0 \<mapsto> st\<lparr>connections_modified := connections_modified st + 1\<rparr>)))"
proof -
  have eq: "tcp_fingerprint_spoof k skops m = connect_pass k skops profile_mss_ttl (stats m)"
    using assms(1-3) by (rule connect_branch)
  show ?thesis
  proof (cases "fails k (ttl_call skops profile_mss_ttl)")
    case True
    with assms(4) show ?thesis
      unfolding eq
      by (simp add: connect_pass_ttl_fails profile_mss_ttl_fields issue_if_def)
  next
    case ttl_ok: False
    show ?thesis
    proof (cases "fails k (mss_call profile_mss_ttl)")
      case True
      with ttl_ok assms(4) show ?thesis
        unfolding eq
        by (simp add: connect_pass_mss_fails profile_mss_ttl_fields issue_if_def)
    next
      case False
      with ttl_ok assms(4) show ?thesis
        unfolding eq
        by (simp add: connect_pass_completes profile_mss_ttl_fields issue_if_def
            update_stats_success)
    qed
  qed
qed

theorem mss_ttl_profile_witness:
  "tcp_fingerprint_spoof (kernel_of (\<lambda>c. 0)) (sock_ops_v4 BPF_SOCK_OPS_TCP_CONNECT_CB)
     (tcp_maps_of profile_mss_ttl (tcp_stats_of 7 8 9))
   = (0, [Setsockopt SOL_IP IP_TTL 64 1, Setsockopt SOL_TCP TCP_MAXSEG 1460 2],
      [0 \<mapsto> tcp_stats_of 8 8 9])
   \<and> tcp_fingerprint_spoof (kernel_of (\<lambda>c. if c = mss_call profile_mss_ttl then - 22 else 0))
     (sock_ops_v4 BPF_SOCK_OPS_TCP_CONNECT_CB)
     (tcp_maps_of profile_mss_ttl (tcp_stats_of 7 8 9))
   = (0, [Setsockopt SOL_IP IP_TTL 64 1, Setsockopt SOL_TCP TCP_MAXSEG 1460 2],
      [0 \<mapsto> tcp_stats_of 7 8 10])"
proof -
  have a: "op (sock_ops_v4 BPF_SOCK_OPS_TCP_CONNECT_CB) = BPF_SOCK_OPS_TCP_CONNECT_CB"
    and b: "family (sock_ops_v4 BPF_SOCK_OPS_TCP_CONNECT_CB) = AF_INET
            \<or> family (sock_ops_v4 BPF_SOCK_OPS_TCP_CONNECT_CB) = AF_INET6"
    by (simp_all add: sock_ops_v4_def)
  have c: "tcp_profiles (tcp_maps_of profile_mss_ttl (tcp_stats_of 7 8 9))
             (current_pid (pid_tgid (kernel_of r))) = Some profile_mss_ttl" for r
    by (simp add: tcp_maps_of_def kernel_of_def current_pid_1234)
  have d: "stats (tcp_maps_of profile_mss_ttl (tcp_stats_of 7 8 9)) 0
             = Some (tcp_stats_of 7 8 9)"
    by (simp add: tcp_maps_of_def)
  show ?thesis
    using mss_ttl_profile_connect [OF a b c d, of "\<lambda>c. 0"]
      mss_ttl_profile_connect [OF a b c d,
        of "\<lambda>c. if c = mss_call profile_mss_ttl then - 22 else 0"]
    by (simp add: fails_def kernel_of_def ttl_call_def mss_call_def sock_ops_v4_def
        profile_mss_ttl_fields tcp_maps_of_def tcp_stats_of_def)
qed

text \<open>
  The claim as it was written fails: when the TTL call fails, one call is issued, not two,
  and \<open>connections_modified\<close> stays 0.
\<close>

theorem mss_ttl_profile_ttl_failure:
  "tcp_fingerprint_spoof (kernel_of (\<lambda>c. - 1)) (sock_ops_v4 BPF_SOCK_OPS_TCP_CONNECT_CB)
     (tcp_maps_of profile_mss_ttl (tcp_stats_of 0 0 0))
   = (0, [Setsockopt SOL_IP IP_TTL 64 1], [0 \<mapsto> tcp_stats_of 0 0 1])"
  by (simp add: tcp_fingerprint_spoof_def connect_pass_def kernel_of_def sock_ops_v4_def
      tcp_maps_of_def tcp_stats_of_def zero_profile_def profile_mss_ttl_def current_pid_1234
      bpf_map_lookup_elem_def update_stats_def ttl_call_def AF_INET_def AF_INET6_def)

section \<open>Properties of the TLS program\<close>

lemma le16_eq_iff:
  "(ucast (lo::u8) OR push_bit 8 (ucast (hi::u8)) :: u16) = v
     \<longleftrightarrow> lo = ucast v \<and> hi = ucast (drop_bit 8 v)"
proof
  assume v: "(ucast lo OR push_bit 8 (ucast hi) :: u16) = v"
  have "lo = ucast v"
    unfolding v [symmetric]
    by (rule bit_word_eqI) (auto simp add: bit_simps dest: bit_imp_le_length)
  moreover have "hi = ucast (drop_bit 8 v)"
    unfolding v [symmetric]
    by (rule bit_word_eqI) (auto simp add: bit_simps dest: bit_imp_le_length)
  ultimately show "lo = ucast v \<and> hi = ucast (drop_bit 8 v)" by simp
next
  assume "lo = ucast v \<and> hi = ucast (drop_bit 8 v)"
  then show "(ucast lo OR push_bit 8 (ucast hi) :: u16) = v"
    by (intro bit_word_eqI) (auto simp add: bit_simps dest: bit_imp_le_length)
qed

lemma bind_res_Inr: "bind_res (Inr v) f = f v"
  by (simp add: bind_res_def)

lemma load8_in: "off < length buf \<Longrightarrow> load8 buf off rd = Inr (buf ! off, rd @ [off])"
  by (simp add: load8_def)

lemma load16_in:
  "off + 1 < length buf \<Longrightarrow>
   load16 buf off rd =
     Inr (ucast (buf ! off) OR push_bit 8 (ucast (buf ! (off + 1))), rd @ [off, off + 1])"
  by (simp add: load16_def load8_in bind_res_Inr)

lemma update_ja3_stats_counter_ref:
  "update_ja3_stats (counter_ref sm f) sm = Inr (bump f sm)"
  by (simp add: update_ja3_stats_def counter_ref_def sync_fetch_and_add_def bump_def
      bpf_map_lookup_elem_def split: option.splits)

lemma htons_ip: "bpf_htons ETH_P_IP = 8"
  by (simp add: bpf_htons_def ETH_P_IP_def)

lemma htons_443: "bpf_htons 443 = 0xBB01"
  by (simp add: bpf_htons_def)

lemma parse_tls_client_hello_eq:
  "parse_tls_client_hello buf profile sm = Inr
    (if length buf < 14 then (0, [], sm)
     else if buf ! 12 \<noteq> 0x08 \<or> buf ! 13 \<noteq> 0x00 then (0, reads_upto buf 2, sm)
     else if length buf < 34 then (0, reads_upto buf 2, sm)
     else if buf ! 23 \<noteq> 6 then (0, reads_upto buf 3, sm)
     else if length buf < tcp_off buf + 20 then (0, reads_upto buf 4, sm)
     else if buf ! (tcp_off buf + 2) \<noteq> 0x01 \<or> buf ! (tcp_off buf + 3) \<noteq> 0xBB
       then (0, reads_upto buf 6, sm)
     else if length buf < payload_off buf + 5 then (0, reads_upto buf 7, sm)
     else if buf ! payload_off buf \<noteq> 0x16 then (0, reads_upto buf 8, sm)
     else if length buf < payload_off buf + 9 then (0, reads_upto buf 8, sm)
     else if buf ! (payload_off buf + 5) \<noteq> 0x01 then (0, reads_upto buf 9, sm)
     else (1, reads_upto buf 9, bump Client_hello_seen sm))"
  unfolding parse_tls_client_hello_def Let_def sizeof_ethhdr_def sizeof_iphdr_def
    sizeof_tcphdr_def sizeof_tls_record_def sizeof_tls_handshake_def
  by (simp add: load8_in load16_in bind_res_Inr le16_eq_iff htons_ip htons_443
      update_ja3_stats_counter_ref tcp_off_def payload_off_def ihl_of_def doff_of_def
      IPPROTO_TCP_def TLS_HANDSHAKE_def TLS_CLIENT_HELLO_def add.assoc reads_upto_def)

lemma parse_match:
  "handshake_ok buf \<Longrightarrow>
   parse_tls_client_hello buf profile sm = Inr (1, reads_upto buf 9, bump Client_hello_seen sm)"
  by (simp add: parse_tls_client_hello_eq handshake_ok_def record_ok_def tcp_ok_def ip_ok_def
      eth_ok_def)

lemma parse_no_match:
  "\<not> handshake_ok buf \<Longrightarrow> \<exists>rd. parse_tls_client_hello buf profile sm = Inr (0, rd, sm)"
  by (auto simp add: parse_tls_client_hello_eq handshake_ok_def record_ok_def tcp_ok_def ip_ok_def
      eth_ok_def)

lemma parse_reads_in_bounds:
  "parse_tls_client_hello buf profile sm = Inr (r, rd, sm') \<Longrightarrow> off \<in> set rd \<Longrightarrow> off < length buf"
  by (auto simp add: parse_tls_client_hello_eq reads_upto_def split: if_splits)

lemma frame_offsets:
  "length client_hello_frame = 63" "ihl_of client_hello_frame = 5"
  "tcp_off client_hello_frame = 34" "doff_of client_hello_frame = 5"
  "payload_off client_hello_frame = 54"
  by (simp_all add: client_hello_frame_def ihl_of_def tcp_off_def doff_of_def payload_off_def)

lemma frame_well_formed: "well_formed_client_hello_frame client_hello_frame"
  unfolding well_formed_client_hello_frame_def frame_offsets
  by (simp add: client_hello_frame_def)

lemma well_formed_handshake_ok: "well_formed_client_hello_frame buf \<Longrightarrow> handshake_ok buf"
  by (simp add: well_formed_client_hello_frame_def handshake_ok_def record_ok_def tcp_ok_def
      ip_ok_def eth_ok_def)

lemma bump_Some: "sm 0 = Some st \<Longrightarrow> bump f sm = sm(0 \<mapsto> add_counter f st)"
  by (simp add: bump_def)

lemma bump_None: "sm 0 = None \<Longrightarrow> bump f sm = sm"
  by (simp add: bump_def)

lemma port_bytes_443:
  "ucast (drop_bit 8 (port :: u16)) = (0x01 :: u8) \<Longrightarrow> ucast port = (0xBB :: u8) \<Longrightarrow> port = 443"
proof -
  assume a: "ucast (drop_bit 8 port) = (0x01 :: u8)" and b: "ucast port = (0xBB :: u8)"
  have "(ucast (0xBB :: u8) OR push_bit 8 (ucast (0x01 :: u8)) :: u16) = port"
    by (rule le16_eq_iff [THEN iffD2]) (simp add: a b)
  then show ?thesis by simp
qed

lemma content_type_changed:
  assumes "well_formed_client_hello_frame buf"
  shows "\<not> handshake_ok (buf[payload_off buf := 0x17])"
proof -
  let ?b = "buf[payload_off buf := 0x17]"
  from assms have ge: "5 \<le> ihl_of buf" "5 \<le> doff_of buf"
    and len: "payload_off buf + 9 \<le> length buf"
    by (simp_all add: well_formed_client_hello_frame_def)
  have po: "payload_off buf = 14 + ihl_of buf * 4 + doff_of buf * 4"
    by (simp add: payload_off_def tcp_off_def)
  have ne14: "payload_off buf \<noteq> 14"
    using ge by (simp add: po)
  have ne12: "payload_off buf \<noteq> tcp_off buf + 12"
    using ge by (simp add: payload_off_def)
  have i: "ihl_of ?b = ihl_of buf"
    by (simp add: ihl_of_def nth_list_update_neq [OF ne14])
  then have t: "tcp_off ?b = tcp_off buf"
    by (simp add: tcp_off_def)
  have d: "doff_of ?b = doff_of buf"
    unfolding doff_of_def t by (simp only: nth_list_update_neq [OF ne12])
  have "payload_off ?b = tcp_off ?b + doff_of ?b * 4"
    by (rule payload_off_def)
  also have "\<dots> = tcp_off buf + doff_of buf * 4"
    by (simp only: t d)
  also have "\<dots> = payload_off buf"
    by (rule payload_off_def [symmetric])
  finally have p: "payload_off ?b = payload_off buf" .
  have "?b ! payload_off ?b = 0x17"
    using len by (simp add: p)
  then show ?thesis
    by (simp add: handshake_ok_def record_ok_def)
qed

lemma dest_port_changed:
  assumes "well_formed_client_hello_frame buf" and "(port :: u16) \<noteq> 443"
  shows "\<not> handshake_ok
           (buf[tcp_off buf + 2 := ucast (drop_bit 8 port), tcp_off buf + 3 := ucast port])"
proof -
  let ?b = "buf[tcp_off buf + 2 := ucast (drop_bit 8 port), tcp_off buf + 3 := ucast port]"
  from assms have ge: "5 \<le> ihl_of buf"
    and len: "tcp_off buf + 20 \<le> length buf"
    by (simp_all add: well_formed_client_hello_frame_def)
  have i: "ihl_of ?b = ihl_of buf"
    using ge by (simp add: ihl_of_def tcp_off_def)
  then have t: "tcp_off ?b = tcp_off buf"
    by (simp add: tcp_off_def)
  have hi: "?b ! (tcp_off ?b + 2) = ucast (drop_bit 8 port)"
    unfolding t using len by (simp add: nth_list_update)
  have lo: "?b ! (tcp_off ?b + 3) = ucast port"
    unfolding t using len by (simp add: nth_list_update)
  show ?thesis
  proof
    assume "handshake_ok ?b"
    then have "?b ! (tcp_off ?b + 2) = 0x01" "?b ! (tcp_off ?b + 3) = 0xBB"
      by (simp_all add: handshake_ok_def record_ok_def tcp_ok_def)
    then have "port = 443"
      unfolding hi lo by (rule port_bytes_443)
    with assms(2) show False by simp
  qed
qed

text \<open>
  C4. For every well-formed Ethernet/IPv4/TCP frame to port 443 that carries a TLS
  handshake record header followed by a ClientHello handshake header, the parser returns
  match (1) and \<open>client_hello_seen\<close> of the statistics slot grows by exactly 1. The same
  buffer with the record's content type set to 0x17 gives no-match with the statistics
  map unchanged, and so does the same buffer with the destination port set to any value
  other than 443.
\<close>

theorem well_formed_client_hello_matches:
  assumes "well_formed_client_hello_frame buf" and "sm 0 = Some st"
    and "(port :: u16) \<noteq> 443"
  shows "(\<exists>rd. parse_tls_client_hello buf profile sm =
            Inr (1, rd, sm(0 \<mapsto> st\<lparr>client_hello_seen := client_hello_seen st + 1\<rparr>)))
       \<and> (\<exists>rd. parse_tls_client_hello (buf[payload_off buf := 0x17]) profile sm =
            Inr (0, rd, sm))
       \<and> (\<exists>rd. parse_tls_client_hello
            (buf[tcp_off buf + 2 := ucast (drop_bit 8 port), tcp_off buf + 3 := ucast port])
            profile sm = Inr (0, rd, sm))"
proof (intro conjI)
  have "handshake_ok buf"
    using assms(1) by (rule well_formed_handshake_ok)
  then have "parse_tls_client_hello buf profile sm =
      Inr (1, reads_upto buf 9, bump Client_hello_seen sm)"
    by (rule parse_match)
  with assms(2) show "\<exists>rd. parse_tls_client_hello buf profile sm =
      Inr (1, rd, sm(0 \<mapsto> st\<lparr>client_hello_seen := client_hello_seen st + 1\<rparr>))"
    by (simp add: bump_Some add_counter_def)
next
  show "\<exists>rd. parse_tls_client_hello (buf[payload_off buf := 0x17]) profile sm = Inr (0, rd, sm)"
    using assms(1) by (intro parse_no_match content_type_changed)
next
  show "\<exists>rd. parse_tls_client_hello
          (buf[tcp_off buf + 2 := ucast (drop_bit 8 port), tcp_off buf + 3 := ucast port])
          profile sm = Inr (0, rd, sm)"
    using assms(1,3) by (intro parse_no_match dest_port_changed)
qed

theorem well_formed_client_hello_witness:
  "well_formed_client_hello_frame client_hello_frame
   \<and> (\<exists>rd. parse_tls_client_hello client_hello_frame (ja3_profile_of 1)
              [0 \<mapsto> ja3_stats_of 5 5 0 2] = Inr (1, rd, [0 \<mapsto> ja3_stats_of 6 5 0 2]))
   \<and> (\<exists>rd. parse_tls_client_hello (client_hello_frame[54 := 0x17]) (ja3_profile_of 1)
              [0 \<mapsto> ja3_stats_of 5 5 0 2] = Inr (0, rd, [0 \<mapsto> ja3_stats_of 5 5 0 2]))
   \<and> (\<exists>rd. parse_tls_client_hello (client_hello_frame[36 := 0x00, 37 := 0x50])
              (ja3_profile_of 1)
              [0 \<mapsto> ja3_stats_of 5 5 0 2] = Inr (0, rd, [0 \<mapsto> ja3_stats_of 5 5 0 2]))"
proof -
  have s: "[0 \<mapsto> ja3_stats_of 5 5 0 2] (0 :: u32) = Some (ja3_stats_of 5 5 0 2)"
    by simp
  have p: "(80 :: u16) \<noteq> 443"
    by simp
  show ?thesis
    using well_formed_client_hello_matches [where buf = client_hello_frame
          and sm = "[0 \<mapsto> ja3_stats_of 5 5 0 2]" and st = "ja3_stats_of 5 5 0 2" and port = 80
          and profile = "ja3_profile_of 1", OF frame_well_formed s p]
      frame_well_formed
    by (simp add: frame_offsets ja3_stats_of_def)
qed

lemma parse_total:
  "\<exists>r rd sm'. parse_tls_client_hello buf profile sm = Inr (r, rd, sm')"
  by (simp add: parse_tls_client_hello_eq)

lemma parse_result:
  assumes "parse_tls_client_hello buf profile sm = Inr (r, rd, sm')"
  shows "(r = 0 \<and> sm' = sm \<and> \<not> handshake_ok buf)
       \<or> (r = 1 \<and> sm' = bump Client_hello_seen sm \<and> handshake_ok buf)"
proof (cases "handshake_ok buf")
  case True
  from parse_match [OF this, of profile sm] assms show ?thesis
    using True by simp
next
  case False
  from parse_no_match [OF this, of profile sm] assms show ?thesis
    using False by auto
qed

lemma socket_filter_active:
  assumes "ja3_profiles m (current_pid pt) = Some p" and "enabled p \<noteq> 0"
    and "parse_tls_client_hello buf p (ja3_stats_map m) = Inr (r, rd, sm1)"
  shows "ja3_socket_filter pt buf m =
           Inr (0, rd, if r \<noteq> 0 then bump Client_hello_modified sm1 else sm1)"
  using assms
  by (simp add: ja3_socket_filter_def bpf_map_lookup_elem_def bind_res_Inr
      update_ja3_stats_counter_ref)

lemma tc_egress_active:
  assumes "ja3_profiles m (current_pid pt) = Some p" and "enabled p \<noteq> 0"
    and "parse_tls_client_hello buf p (ja3_stats_map m) = Inr (r, rd, sm1)"
  shows "ja3_tc_egress pt buf m = Inr (TC_ACT_OK, rd, sm1)"
  using assms
  by (simp add: ja3_tc_egress_def bpf_map_lookup_elem_def bind_res_Inr)

lemma socket_filter_inactive:
  "no_active_ja3_profile m (current_pid pt) \<Longrightarrow>
   ja3_socket_filter pt buf m = Inr (0, [], ja3_stats_map m)"
  by (simp add: ja3_socket_filter_def no_active_ja3_profile_def bpf_map_lookup_elem_def
      split: option.splits)

lemma tc_egress_inactive:
  "no_active_ja3_profile m (current_pid pt) \<Longrightarrow>
   ja3_tc_egress pt buf m = Inr (TC_ACT_OK, [], ja3_stats_map m)"
  by (simp add: ja3_tc_egress_def no_active_ja3_profile_def bpf_map_lookup_elem_def
      split: option.splits)

lemma sockops_eq:
  "ja3_sockops pt skops m =
     Inr (0, if (family skops = AF_INET \<or> family skops = AF_INET6)
                \<and> remote_port skops = ucast (bpf_htons 443)
                \<and> op skops = BPF_SOCK_OPS_TCP_CONNECT_CB
                \<and> \<not> no_active_ja3_profile m (current_pid pt)
             then bump Packets_passed (ja3_stats_map m) else ja3_stats_map m)"
  by (simp add: ja3_sockops_def no_active_ja3_profile_def bpf_map_lookup_elem_def bind_res_Inr
      update_ja3_stats_counter_ref split: option.splits)

text \<open>
  C2. For every buffer, the empty one included, the parser returns without a fault and
  every offset it has loaded is below the length of the buffer: it reads no byte at or
  past \<open>data_end\<close>. When one of its five bounds checks fails (Ethernet header, IPv4
  header, TCP header, TLS record header, TLS handshake header) it returns no-match (0) at
  once: it has loaded exactly the offsets of the checks passed before, and the statistics
  map is unchanged.
\<close>

theorem parser_reads_stay_in_bounds:
  "(\<exists>r rd sm'. parse_tls_client_hello buf profile sm = Inr (r, rd, sm')
       \<and> (\<forall>off \<in> set rd. off < length buf))
   \<and> (length buf < 14 \<longrightarrow> parse_tls_client_hello buf profile sm = Inr (0, [], sm))
   \<and> (eth_ok buf \<and> length buf < 34 \<longrightarrow>
        parse_tls_client_hello buf profile sm = Inr (0, reads_upto buf 2, sm))
   \<and> (ip_ok buf \<and> length buf < tcp_off buf + 20 \<longrightarrow>
        parse_tls_client_hello buf profile sm = Inr (0, reads_upto buf 4, sm))
   \<and> (tcp_ok buf \<and> length buf < payload_off buf + 5 \<longrightarrow>
        parse_tls_client_hello buf profile sm = Inr (0, reads_upto buf 7, sm))
   \<and> (record_ok buf \<and> length buf < payload_off buf + 9 \<longrightarrow>
        parse_tls_client_hello buf profile sm = Inr (0, reads_upto buf 8, sm))"
proof (intro conjI impI)
  obtain r rd sm' where eq: "parse_tls_client_hello buf profile sm = Inr (r, rd, sm')"
    using parse_total by blast
  then have "\<forall>off \<in> set rd. off < length buf"
    using parse_reads_in_bounds by blast
  with eq show "\<exists>r rd sm'. parse_tls_client_hello buf profile sm = Inr (r, rd, sm')
       \<and> (\<forall>off \<in> set rd. off < length buf)"
    by blast
next
  assume "length buf < 14"
  then show "parse_tls_client_hello buf profile sm = Inr (0, [], sm)"
    by (simp add: parse_tls_client_hello_eq)
next
  assume "eth_ok buf \<and> length buf < 34"
  then show "parse_tls_client_hello buf profile sm = Inr (0, reads_upto buf 2, sm)"
    by (simp add: parse_tls_client_hello_eq eth_ok_def)
next
  assume "ip_ok buf \<and> length buf < tcp_off buf + 20"
  then show "parse_tls_client_hello buf profile sm = Inr (0, reads_upto buf 4, sm)"
    by (simp add: parse_tls_client_hello_eq eth_ok_def ip_ok_def)
next
  assume "tcp_ok buf \<and> length buf < payload_off buf + 5"
  then show "parse_tls_client_hello buf profile sm = Inr (0, reads_upto buf 7, sm)"
    by (simp add: parse_tls_client_hello_eq eth_ok_def ip_ok_def tcp_ok_def)
next
  assume "record_ok buf \<and> length buf < payload_off buf + 9"
  then show "parse_tls_client_hello buf profile sm = Inr (0, reads_upto buf 8, sm)"
    by (simp add: parse_tls_client_hello_eq eth_ok_def ip_ok_def tcp_ok_def record_ok_def)
qed

lemma truncated_frame:
  "length (take 40 client_hello_frame) = 40" "ip_ok (take 40 client_hello_frame)"
  "tcp_off (take 40 client_hello_frame) = 34"
  by (simp_all add: client_hello_frame_def ip_ok_def eth_ok_def tcp_off_def ihl_of_def)

theorem parser_reads_witness:
  "parse_tls_client_hello [] (ja3_profile_of 1) [0 \<mapsto> ja3_stats_of 5 5 0 2]
     = Inr (0, [], [0 \<mapsto> ja3_stats_of 5 5 0 2])
   \<and> parse_tls_client_hello (take 40 client_hello_frame) (ja3_profile_of 1)
       [0 \<mapsto> ja3_stats_of 5 5 0 2]
     = Inr (0, [12, 13, 23, 14], [0 \<mapsto> ja3_stats_of 5 5 0 2])"
  using parser_reads_stay_in_bounds [of "[]" "ja3_profile_of 1" "[0 \<mapsto> ja3_stats_of 5 5 0 2]"]
    parser_reads_stay_in_bounds [of "take 40 client_hello_frame" "ja3_profile_of 1"
      "[0 \<mapsto> ja3_stats_of 5 5 0 2]"]
  by (simp add: truncated_frame reads_upto_def)

text \<open>
  C9. On the socket-filter path with a present, enabled profile, when the parser
  recognises the buffer as a ClientHello (returns 1), the invocation adds one to
  \<open>client_hello_seen\<close> and one to \<open>client_hello_modified\<close> of the statistics slot. The
  program returns 0 and has only loaded from the packet; the model, like the source, has
  no store into it.
\<close>

theorem socket_filter_counts_seen_and_modified:
  assumes "ja3_profiles m (current_pid pt) = Some p" and "enabled p \<noteq> 0"
    and "parse_tls_client_hello buf p (ja3_stats_map m) = Inr (1, rd, sm1)"
    and "ja3_stats_map m 0 = Some st"
  shows "ja3_socket_filter pt buf m =
           Inr (0, rd, (ja3_stats_map m)(0 \<mapsto>
             st\<lparr>client_hello_seen := client_hello_seen st + 1,
                client_hello_modified := client_hello_modified st + 1\<rparr>))"
proof -
  from parse_result [OF assms(3)]
  have sm1: "sm1 = bump Client_hello_seen (ja3_stats_map m)"
    by simp
  have "ja3_socket_filter pt buf m = Inr (0, rd, bump Client_hello_modified sm1)"
    using socket_filter_active [OF assms(1-3)] by simp
  then show ?thesis
    using assms(4) by (simp add: sm1 bump_def add_counter_def)
qed

lemma frame_parse:
  "parse_tls_client_hello client_hello_frame p [0 \<mapsto> ja3_stats_of 5 5 0 2] =
     Inr (1, [12, 13, 23, 14, 36, 37, 46, 54, 59], [0 \<mapsto> ja3_stats_of 6 5 0 2])"
  using parse_match [OF well_formed_handshake_ok [OF frame_well_formed]]
  by (simp add: reads_upto_def frame_offsets bump_def add_counter_def ja3_stats_of_def)

lemma frame_filter_eval:
  "ja3_socket_filter 0x4D200000000 client_hello_frame
     (ja3_maps_of (ja3_profile_of 1) (ja3_stats_of 5 5 0 2))
   = Inr (0, [12, 13, 23, 14, 36, 37, 46, 54, 59], [0 \<mapsto> ja3_stats_of 6 6 0 2])"
proof -
  let ?m = "ja3_maps_of (ja3_profile_of 1) (ja3_stats_of 5 5 0 2)"
  have a: "ja3_profiles ?m (current_pid 0x4D200000000) = Some (ja3_profile_of 1)"
    by (simp add: ja3_maps_of_def current_pid_1234)
  have b: "enabled (ja3_profile_of 1) \<noteq> 0"
    by (simp add: ja3_profile_of_def)
  have c: "parse_tls_client_hello client_hello_frame (ja3_profile_of 1) (ja3_stats_map ?m)
        = Inr (1, [12, 13, 23, 14, 36, 37, 46, 54, 59], [0 \<mapsto> ja3_stats_of 6 5 0 2])"
    by (simp add: ja3_maps_of_def frame_parse)
  from socket_filter_active [OF a b c] show ?thesis
    by (simp add: bump_def add_counter_def ja3_stats_of_def)
qed

theorem socket_filter_counts_witness:
  "ja3_socket_filter 0x4D200000000 client_hello_frame
     (ja3_maps_of (ja3_profile_of 1) (ja3_stats_of 5 5 0 2))
   = Inr (0, [12, 13, 23, 14, 36, 37, 46, 54, 59], [0 \<mapsto> ja3_stats_of 6 6 0 2])"
proof -
  let ?m = "ja3_maps_of (ja3_profile_of 1) (ja3_stats_of 5 5 0 2)"
  have a: "ja3_profiles ?m (current_pid 0x4D200000000) = Some (ja3_profile_of 1)"
    by (simp add: ja3_maps_of_def current_pid_1234)
  have b: "enabled (ja3_profile_of 1) \<noteq> 0"
    by (simp add: ja3_profile_of_def)
  have c: "parse_tls_client_hello client_hello_frame (ja3_profile_of 1) (ja3_stats_map ?m)
        = Inr (1, [12, 13, 23, 14, 36, 37, 46, 54, 59], [0 \<mapsto> ja3_stats_of 6 5 0 2])"
    by (simp add: ja3_maps_of_def frame_parse)
  have d: "ja3_stats_map ?m 0 = Some (ja3_stats_of 5 5 0 2)"
    by (simp add: ja3_maps_of_def)
  from socket_filter_counts_seen_and_modified [OF a b c d] show ?thesis
    by (simp add: ja3_maps_of_def ja3_stats_of_def)
qed

text \<open>
  C10. At each call site the pointer handed to \<open>update_ja3_stats\<close> is built from a lookup
  of slot 0, and the helper adds through it only after its own lookup of slot 0 has
  succeeded. For every state of the statistics map the two lookups agree, so the add never
  goes through a pointer built on \<open>NULL\<close>: the call is the increment of the slot's
  counter when the slot exists and does nothing when it does not, and none of the three
  programs that hold a call site ends in a bad-pointer fault.
\<close>

theorem counter_pointer_valid_when_added:
  "update_ja3_stats (counter_ref sm f) sm =
     Inr (case sm 0 of None \<Rightarrow> sm | Some st \<Rightarrow> sm(0 \<mapsto> add_counter f st))
   \<and> parse_tls_client_hello buf profile sm \<noteq> Inl (Bad_pointer c)
   \<and> ja3_socket_filter pt buf m \<noteq> Inl (Bad_pointer c)
   \<and> ja3_sockops pt skops m \<noteq> Inl (Bad_pointer c)"
proof (intro conjI)
  show "update_ja3_stats (counter_ref sm f) sm =
     Inr (case sm 0 of None \<Rightarrow> sm | Some st \<Rightarrow> sm(0 \<mapsto> add_counter f st))"
    by (simp add: update_ja3_stats_counter_ref bump_def)
  show "parse_tls_client_hello buf profile sm \<noteq> Inl (Bad_pointer c)"
    by (simp add: parse_tls_client_hello_eq)
  show "ja3_sockops pt skops m \<noteq> Inl (Bad_pointer c)"
    by (simp add: sockops_eq)
  show "ja3_socket_filter pt buf m \<noteq> Inl (Bad_pointer c)"
  proof (cases "no_active_ja3_profile m (current_pid pt)")
    case True
    then show ?thesis by (simp add: socket_filter_inactive)
  next
    case False
    then obtain p where p: "ja3_profiles m (current_pid pt) = Some p" "enabled p \<noteq> 0"
      by (auto simp add: no_active_ja3_profile_def split: option.splits)
    obtain r rd sm1 where "parse_tls_client_hello buf p (ja3_stats_map m) = Inr (r, rd, sm1)"
      using parse_total by blast
    from socket_filter_active [OF p this] show ?thesis by simp
  qed
qed

text \<open>
  C7. When the process has no TCP profile, the outbound-connect handler returns 0 with no
  mutation call and the statistics map as it was. When the process has no JA3 profile, or
  has one that is not enabled, the socket filter and the egress classifier return their
  pass value (0 and \<open>TC_ACT_OK\<close>) without loading a single byte of the buffer and with the
  statistics map as it was, and the JA3 connect handler updates nothing.
\<close>

theorem absent_profile_is_pass_through:
  "(op skops = BPF_SOCK_OPS_TCP_CONNECT_CB \<and> tcp_profiles tm (current_pid (pid_tgid k)) = None
      \<longrightarrow> tcp_fingerprint_spoof k skops tm = (0, [], stats tm))
   \<and> (no_active_ja3_profile m (current_pid pt)
      \<longrightarrow> ja3_socket_filter pt buf m = Inr (0, [], ja3_stats_map m)
        \<and> ja3_tc_egress pt buf m = Inr (TC_ACT_OK, [], ja3_stats_map m)
        \<and> ja3_sockops pt skops m = Inr (0, ja3_stats_map m))"
  by (simp add: socket_filter_inactive tc_egress_inactive sockops_eq
      tcp_fingerprint_spoof_def bpf_map_lookup_elem_def)

theorem absent_profile_witness:
  "tcp_fingerprint_spoof (kernel_of (\<lambda>c. 0)) (sock_ops_v4 BPF_SOCK_OPS_TCP_CONNECT_CB)
      \<lparr>tcp_profiles = Map.empty, stats = [0 \<mapsto> tcp_stats_of 7 8 9]\<rparr>
     = (0, [], [0 \<mapsto> tcp_stats_of 7 8 9])
   \<and> ja3_socket_filter 0x4D200000000 client_hello_frame
        \<lparr>ja3_profiles = Map.empty, ja3_stats_map = [0 \<mapsto> ja3_stats_of 5 5 0 2]\<rparr>
     = Inr (0, [], [0 \<mapsto> ja3_stats_of 5 5 0 2])
   \<and> ja3_tc_egress 0x4D200000000 client_hello_frame
        (ja3_maps_of (ja3_profile_of 0) (ja3_stats_of 5 5 0 2))
     = Inr (0, [], [0 \<mapsto> ja3_stats_of 5 5 0 2])"
  using absent_profile_is_pass_through [of "sock_ops_v4 BPF_SOCK_OPS_TCP_CONNECT_CB"
      "\<lparr>tcp_profiles = Map.empty, stats = [0 \<mapsto> tcp_stats_of 7 8 9]\<rparr>" "kernel_of (\<lambda>c. 0)"
      "\<lparr>ja3_profiles = Map.empty, ja3_stats_map = [0 \<mapsto> ja3_stats_of 5 5 0 2]\<rparr>"
      "0x4D200000000" client_hello_frame]
    absent_profile_is_pass_through [of "sock_ops_v4 BPF_SOCK_OPS_TCP_CONNECT_CB"
      "\<lparr>tcp_profiles = Map.empty, stats = [0 \<mapsto> tcp_stats_of 7 8 9]\<rparr>" "kernel_of (\<lambda>c. 0)"
      "ja3_maps_of (ja3_profile_of 0) (ja3_stats_of 5 5 0 2)"
      "0x4D200000000" client_hello_frame]
  by (simp add: sock_ops_v4_def no_active_ja3_profile_def ja3_maps_of_def ja3_profile_of_def
      current_pid_1234 TC_ACT_OK_def)

section \<open>The counters under every operation\<close>

lemma counter_step_same: "counter_step a a"
  by (simp add: counter_step_def)

lemma max_u64: "(0xFFFFFFFFFFFFFFFF :: u64) = - 1"
  by simp

lemma max_u64_inc: "(0xFFFFFFFFFFFFFFFF :: u64) + 1 = 0"
  by simp

lemma counter_step_inc: "counter_step a (a + 1)"
proof -
  have "a \<le> a + 1" if "a \<noteq> - 1"
    using that inc_less_eq_self_iff_eq [of a] by (metis nle_le)
  then show ?thesis
    unfolding counter_step_def max_u64 by simp
qed

lemma tcp_stats_step_same: "tcp_stats_step a a"
  by (simp add: tcp_stats_step_def counter_step_same)

lemma ja3_stats_step_same: "ja3_stats_step a a"
  by (simp add: ja3_stats_step_def counter_step_same)

lemma rel_option_same: "(\<And>a. R a a) \<Longrightarrow> rel_option R x x"
  by (cases x) simp_all

lemma tcp_map_step_same: "tcp_map_step sm sm"
  by (simp add: tcp_map_step_def rel_option_same tcp_stats_step_same)

lemma ja3_map_step_same: "ja3_map_step sm sm"
  by (simp add: ja3_map_step_def rel_option_same ja3_stats_step_same)

lemma tcp_map_step_slot:
  "sm 0 = Some st \<Longrightarrow> tcp_stats_step st st' \<Longrightarrow> tcp_map_step sm (sm(0 \<mapsto> st'))"
  by (simp add: tcp_map_step_def rel_option_same tcp_stats_step_same)

lemma ja3_map_step_slot:
  "sm 0 = Some st \<Longrightarrow> ja3_stats_step st st' \<Longrightarrow> ja3_map_step sm (sm(0 \<mapsto> st'))"
  by (simp add: ja3_map_step_def rel_option_same ja3_stats_step_same)

lemma tcp_map_step_update_stats: "tcp_map_step sm (update_stats e sm)"
proof (cases "sm 0")
  case None
  then show ?thesis by (simp add: update_stats_None tcp_map_step_same)
next
  case (Some st)
  then show ?thesis
    by (cases "e = 0")
      (simp_all add: update_stats_success update_stats_error tcp_map_step_slot
        tcp_stats_step_def counter_step_same counter_step_inc)
qed

lemma tcp_map_step_update_stats_twice: "tcp_map_step sm (update_stats 0 (update_stats 1 sm))"
proof (cases "sm 0")
  case None
  then show ?thesis by (simp add: update_stats_None tcp_map_step_same)
next
  case (Some st)
  then show ?thesis
    by (simp add: update_stats_0_after_1 tcp_map_step_slot tcp_stats_step_def
        counter_step_same counter_step_inc)
qed

lemma tcp_map_step_connect_pass:
  "tcp_map_step sm (stats_after (connect_pass k skops p sm))"
  by (simp add: connect_pass_def stats_after_def Let_def tcp_map_step_update_stats
      tcp_map_step_update_stats_twice)

lemma tcp_map_step_spoof: "tcp_map_step (stats m) (stats_after (tcp_fingerprint_spoof k skops m))"
proof -
  have established: "tcp_map_step sm (sm(0 \<mapsto> st\<lparr>packets_processed := packets_processed st + 1\<rparr>))"
    if "sm 0 = Some st" for sm st
    using that
    by (simp add: tcp_map_step_slot tcp_stats_step_def counter_step_same counter_step_inc)
  have plain: "stats_after (r, cs, sm) = sm" for r cs sm
    by (simp add: stats_after_def)
  show ?thesis
    by (simp add: tcp_fingerprint_spoof_def Let_def bpf_map_lookup_elem_def plain
        tcp_map_step_same tcp_map_step_connect_pass established split: option.splits)
qed

lemma ja3_map_step_bump: "ja3_map_step sm (bump f sm)"
proof (cases "sm 0")
  case None
  then show ?thesis by (simp add: bump_None ja3_map_step_same)
next
  case (Some st)
  then show ?thesis
    by (cases f)
      (simp_all add: bump_Some ja3_map_step_slot ja3_stats_step_def add_counter_def
        counter_step_same counter_step_inc)
qed

lemma ja3_map_step_seen_modified:
  "ja3_map_step sm (bump Client_hello_modified (bump Client_hello_seen sm))"
proof (cases "sm 0")
  case None
  then show ?thesis by (simp add: bump_None ja3_map_step_same)
next
  case (Some st)
  then show ?thesis
    by (simp add: bump_def ja3_map_step_slot ja3_stats_step_def add_counter_def
        counter_step_same counter_step_inc)
qed

lemma ja3_map_step_parse:
  "parse_tls_client_hello buf p sm = Inr (r, rd, sm') \<Longrightarrow> ja3_map_step sm sm'"
  using parse_result [of buf p sm r rd sm']
  by (auto simp add: ja3_map_step_same ja3_map_step_bump)

lemma ja3_map_step_filter:
  "\<exists>r rd sm'. ja3_socket_filter pt buf m = Inr (r, rd, sm') \<and> ja3_map_step (ja3_stats_map m) sm'"
proof (cases "no_active_ja3_profile m (current_pid pt)")
  case True
  then show ?thesis by (simp add: socket_filter_inactive ja3_map_step_same)
next
  case False
  then obtain p where p: "ja3_profiles m (current_pid pt) = Some p" "enabled p \<noteq> 0"
    by (auto simp add: no_active_ja3_profile_def split: option.splits)
  obtain r rd sm1 where eq: "parse_tls_client_hello buf p (ja3_stats_map m) = Inr (r, rd, sm1)"
    using parse_total by blast
  from parse_result [OF eq] socket_filter_active [OF p eq] show ?thesis
    by (auto simp add: ja3_map_step_same ja3_map_step_seen_modified)
qed

lemma ja3_map_step_egress:
  "\<exists>r rd sm'. ja3_tc_egress pt buf m = Inr (r, rd, sm') \<and> ja3_map_step (ja3_stats_map m) sm'"
proof (cases "no_active_ja3_profile m (current_pid pt)")
  case True
  then show ?thesis by (simp add: tc_egress_inactive ja3_map_step_same)
next
  case False
  then obtain p where p: "ja3_profiles m (current_pid pt) = Some p" "enabled p \<noteq> 0"
    by (auto simp add: no_active_ja3_profile_def split: option.splits)
  obtain r rd sm1 where eq: "parse_tls_client_hello buf p (ja3_stats_map m) = Inr (r, rd, sm1)"
    using parse_total by blast
  from ja3_map_step_parse [OF eq] tc_egress_active [OF p eq] show ?thesis
    by simp
qed

text \<open>
  C5, as the code has it. Under every operation of both programs the statistics map
  keeps its keys, and every counter of every slot is left alone or has exactly one added
  to it modulo \<open>2^64\<close>: no operation writes any other value, so none resets a counter,
  and a counter below \<open>2^64 - 1\<close> never decreases. The operations are the TCP sockops
  handler, the parser, the socket filter, the egress classifier and the JA3 sockops
  handler; \<open>tcp_socket_create\<close> has no access to a map.
\<close>

theorem counters_advance_by_at_most_one:
  "tcp_map_step (stats tm) (stats_after (tcp_fingerprint_spoof k skops tm))
   \<and> (\<exists>r rd sm'. parse_tls_client_hello buf p sm = Inr (r, rd, sm') \<and> ja3_map_step sm sm')
   \<and> (\<exists>r rd sm'. ja3_socket_filter pt buf m = Inr (r, rd, sm')
         \<and> ja3_map_step (ja3_stats_map m) sm')
   \<and> (\<exists>r rd sm'. ja3_tc_egress pt buf m = Inr (r, rd, sm')
         \<and> ja3_map_step (ja3_stats_map m) sm')
   \<and> (\<exists>r sm'. ja3_sockops pt skops m = Inr (r, sm') \<and> ja3_map_step (ja3_stats_map m) sm')"
proof (intro conjI)
  show "tcp_map_step (stats tm) (stats_after (tcp_fingerprint_spoof k skops tm))"
    by (rule tcp_map_step_spoof)
  show "\<exists>r rd sm'. parse_tls_client_hello buf p sm = Inr (r, rd, sm') \<and> ja3_map_step sm sm'"
    using parse_total [of buf p sm] ja3_map_step_parse by blast
  show "\<exists>r rd sm'. ja3_socket_filter pt buf m = Inr (r, rd, sm')
      \<and> ja3_map_step (ja3_stats_map m) sm'"
    by (rule ja3_map_step_filter)
  show "\<exists>r rd sm'. ja3_tc_egress pt buf m = Inr (r, rd, sm')
      \<and> ja3_map_step (ja3_stats_map m) sm'"
    by (rule ja3_map_step_egress)
  show "\<exists>r sm'. ja3_sockops pt skops m = Inr (r, sm') \<and> ja3_map_step (ja3_stats_map m) sm'"
    by (simp add: sockops_eq ja3_map_step_same ja3_map_step_bump)
qed

theorem counters_advance_witness:
  "tcp_map_step [0 \<mapsto> tcp_stats_of 7 8 9] [0 \<mapsto> tcp_stats_of 7 9 9]
   \<and> ja3_map_step [0 \<mapsto> ja3_stats_of 5 5 0 2] [0 \<mapsto> ja3_stats_of 6 6 0 2]"
  using counters_advance_by_at_most_one [of
      "tcp_maps_of zero_profile (tcp_stats_of 7 8 9)" "kernel_of (\<lambda>c. 0)"
      "sock_ops_v4 BPF_SOCK_OPS_ACTIVE_ESTABLISHED_CB" client_hello_frame "ja3_profile_of 1"
      "[0 \<mapsto> ja3_stats_of 5 5 0 2]" "0x4D200000000"
      "ja3_maps_of (ja3_profile_of 1) (ja3_stats_of 5 5 0 2)"]
    frame_filter_eval
  by (simp add: tcp_fingerprint_spoof_def sock_ops_v4_def tcp_maps_of_def tcp_stats_of_def
      stats_after_def bpf_map_lookup_elem_def AF_INET_def AF_INET6_def
      BPF_SOCK_OPS_TCP_CONNECT_CB_def BPF_SOCK_OPS_PASSIVE_ESTABLISHED_CB_def
      BPF_SOCK_OPS_ACTIVE_ESTABLISHED_CB_def ja3_maps_of_def)

text \<open>
  The claim as it was written fails at the largest value: a full-establishment
  notification takes \<open>packets_processed\<close> from \<open>2^64 - 1\<close> to 0.
\<close>

theorem packets_processed_wraps_to_zero:
  "stats_after (tcp_fingerprint_spoof (kernel_of (\<lambda>c. 0))
      (sock_ops_v4 BPF_SOCK_OPS_ACTIVE_ESTABLISHED_CB)
      (tcp_maps_of zero_profile (tcp_stats_of 0 0xFFFFFFFFFFFFFFFF 0)))
   = [0 \<mapsto> tcp_stats_of 0 0 0]
   \<and> (0 :: u64) < 0xFFFFFFFFFFFFFFFF"
  unfolding tcp_stats_of_def
  by (simp add: max_u64_inc del: add_numeral_left numeral_plus_one add_numeral_special
      add: tcp_fingerprint_spoof_def sock_ops_v4_def tcp_maps_of_def
      stats_after_def bpf_map_lookup_elem_def AF_INET_def AF_INET6_def
      BPF_SOCK_OPS_TCP_CONNECT_CB_def BPF_SOCK_OPS_PASSIVE_ESTABLISHED_CB_def
      BPF_SOCK_OPS_ACTIVE_ESTABLISHED_CB_def)

end
